theory Spec2Isabelle
  imports Complex_Main "HOL-Library.Monad_Syntax"
begin

section \<open>Tennis ball simulator: ball physics and shot lifecycle\<close>

text \<open>
  A shallow embedding of \<^verbatim>\<open>src/main.cpp\<close>. The file holds two listings of the
  program: the drop-only simulator (lines 1-570) and the full simulator with horizontal
  shots, net, spin and the RIGHTY player (lines 571-2726).

  Conventions of the embedding.
  \<^item> A C++ \<^verbatim>\<open>float\<close> is a \<^typ>\<open>real\<close>: arithmetic is exact, rounding and the
    special values of IEEE 754 are not modelled. Decimal literals are the decimal
    fractions written in the source.
  \<^item> \<^verbatim>\<open>int bounceCount\<close> is an \<^typ>\<open>int\<close>. The counter is reset to 0 by every launch
    and is shown below to stay at most 11, so the machine range is never left.
  \<^item> Every division executed by \<^verbatim>\<open>TennisBall::update\<close> goes through \<open>fdiv\<close>, which
    fails on a zero divisor; the update therefore returns an \<^typ>\<open>'a option\<close>.
  \<^item> \<^verbatim>\<open>rand()\<close> is a parameter: the natural number the call returns.
  \<^item> Fields used only for drawing (names, colours) are left out.
\<close>

subsection \<open>Constants\<close>

definition GRAVITY :: real where "GRAVITY = 9.81"
definition BALL_RADIUS :: real where "BALL_RADIUS = 0.0335"
definition INITIAL_HEIGHT :: real where "INITIAL_HEIGHT = 2.0"
definition WINDOW_WIDTH :: real where "WINDOW_WIDTH = 640"
definition DT :: real where "DT = 0.0083"
definition COURT_LENGTH :: real where "COURT_LENGTH = 23.77"
definition NET_HEIGHT :: real where "NET_HEIGHT = 0.914"
definition BALL_MASS :: real where "BALL_MASS = 0.058"
definition MAX_HORIZONTAL_FORCE :: real where "MAX_HORIZONTAL_FORCE = 1000.0"

subsection \<open>Court surfaces\<close>

datatype CourtType = ROLAND_GARROS_CLAY | WIMBLEDON_GRASS | US_OPEN_HARD | LAVER_CUP_BLACK

record CourtSurface =
  type :: CourtType
  coefficientOfRestitution :: real
  friction :: real

definition courts :: "CourtSurface list" where
  "courts =
    [\<lparr>type = ROLAND_GARROS_CLAY, coefficientOfRestitution = 0.75, friction = 0.6\<rparr>,
     \<lparr>type = WIMBLEDON_GRASS, coefficientOfRestitution = 0.70, friction = 0.4\<rparr>,
     \<lparr>type = US_OPEN_HARD, coefficientOfRestitution = 0.73, friction = 0.5\<rparr>,
     \<lparr>type = LAVER_CUP_BLACK, coefficientOfRestitution = 0.72, friction = 0.5\<rparr>]"

subsection \<open>Ball state\<close>

text \<open>\<^verbatim>\<open>struct BounceData { float time; float height; }\<close> as a pair (time, height).\<close>

type_synonym BounceData = "real \<times> real"

text \<open>
  The \<^verbatim>\<open>TennisBall\<close> of the drop-only listing (lines 68-129) has the fields
  \<open>y, vy, time, bounceCount, isActive, surface, trajectory, bounces\<close>; the
  \<^verbatim>\<open>TennisBall\<close> of the full listing (lines 740-920) has these and
  \<open>x, vx, airResistanceCoeff, spinRPM\<close>. The first is the base record, the second
  its extension, so that both keep the field names of the source.
\<close>

record DropBall =
  y :: real
  vy :: real
  time :: real
  bounceCount :: int
  isActive :: bool
  surface :: CourtSurface
  trajectory :: "BounceData list"
  bounces :: "BounceData list"

record TennisBall = DropBall +
  x :: real
  vx :: real
  airResistanceCoeff :: real
  spinRPM :: real

subsection \<open>Drop-only listing: \<^verbatim>\<open>TennisBall::reset\<close> and \<^verbatim>\<open>TennisBall::update\<close> (lines 84-128)\<close>

definition drop_reset :: "DropBall \<Rightarrow> DropBall" where
  "drop_reset b =
    (let b = b\<lparr>y := INITIAL_HEIGHT\<rparr>;
         b = b\<lparr>vy := 0\<rparr>;
         b = b\<lparr>time := 0\<rparr>;
         b = b\<lparr>bounceCount := 0\<rparr>;
         b = b\<lparr>isActive := True\<rparr>;
         b = b\<lparr>trajectory := []\<rparr>;
         b = b\<lparr>bounces := []\<rparr>
     in b\<lparr>trajectory := trajectory b @ [(time b, y b)]\<rparr>)"

definition drop_update :: "real \<Rightarrow> DropBall \<Rightarrow> DropBall" where
  "drop_update dt b =
    (if \<not> isActive b then b
     else
       let b = b\<lparr>time := time b + dt\<rparr>;
           b = b\<lparr>vy := vy b - GRAVITY * dt\<rparr>;
           b = b\<lparr>y := y b + vy b * dt\<rparr>;
           b = b\<lparr>trajectory := trajectory b @ [(time b, y b)]\<rparr>
       in if y b \<le> 0 then
            let b = b\<lparr>y := 0\<rparr>;
                b = (if bounceCount b < 3 then b\<lparr>bounces := bounces b @ [(time b, 0)]\<rparr> else b);
                b = b\<lparr>vy := - vy b * coefficientOfRestitution (surface b)\<rparr>;
                b = b\<lparr>bounceCount := bounceCount b + 1\<rparr>
            in if \<bar>vy b\<bar> < 0.1 \<or> bounceCount b > 10
               then (let b = b\<lparr>isActive := False\<rparr> in b\<lparr>vy := 0\<rparr>)
               else b
          else b)"

subsection \<open>Full listing: the ball (lines 755-920)\<close>

text \<open>Checked division: \<open>None\<close> stands for a division by zero.\<close>

definition fdiv :: "real \<Rightarrow> real \<Rightarrow> real option" where
  "fdiv a d = (if d = 0 then None else Some (a / d))"

text \<open>
  The constructor sets \<open>surface\<close>, \<open>airResistanceCoeff\<close> and \<open>spinRPM\<close> and calls
  \<open>reset\<close>, which assigns every other field.
\<close>

definition reset :: "TennisBall \<Rightarrow> TennisBall" where
  "reset b =
    (let b = b\<lparr>y := INITIAL_HEIGHT\<rparr>;
         b = b\<lparr>vy := 0\<rparr>;
         b = b\<lparr>x := 0\<rparr>;
         b = b\<lparr>vx := 0\<rparr>;
         b = b\<lparr>time := 0\<rparr>;
         b = b\<lparr>bounceCount := 0\<rparr>;
         b = b\<lparr>isActive := True\<rparr>;
         b = b\<lparr>trajectory := []\<rparr>;
         b = b\<lparr>bounces := []\<rparr>
     in b\<lparr>trajectory := trajectory b @ [(time b, y b)]\<rparr>)"

definition TennisBall_new :: "CourtSurface \<Rightarrow> TennisBall" where
  "TennisBall_new courtSurface =
    reset \<lparr>y = 0, vy = 0, time = 0, bounceCount = 0, isActive = False,
           surface = courtSurface, trajectory = [], bounces = [],
           x = 0, vx = 0, airResistanceCoeff = 0, spinRPM = 0\<rparr>"

definition resetForHorizontalShot :: "real \<Rightarrow> real \<Rightarrow> real \<Rightarrow> TennisBall \<Rightarrow> TennisBall" where
  "resetForHorizontalShot horizontalForce angleDegrees spin b =
    (let b = b\<lparr>x := (20 / (WINDOW_WIDTH - 100)) * COURT_LENGTH\<rparr>;
         b = b\<lparr>y := 1\<rparr>;
         totalVelocity = (horizontalForce / MAX_HORIZONTAL_FORCE) * 50;
         angleRad = angleDegrees * 3.14159265 / 180;
         b = b\<lparr>vx := totalVelocity * cos angleRad\<rparr>;
         b = b\<lparr>vy := totalVelocity * sin angleRad\<rparr>;
         b = b\<lparr>spinRPM := spin\<rparr>;
         b = b\<lparr>time := 0\<rparr>;
         b = b\<lparr>bounceCount := 0\<rparr>;
         b = b\<lparr>isActive := True\<rparr>;
         b = b\<lparr>trajectory := []\<rparr>;
         b = b\<lparr>bounces := []\<rparr>
     in b\<lparr>trajectory := trajectory b @ [(time b, y b)]\<rparr>)"

definition setAirResistance :: "real \<Rightarrow> TennisBall \<Rightarrow> TennisBall" where
  "setAirResistance coefficient b = b\<lparr>airResistanceCoeff := coefficient\<rparr>"

text \<open>
  \<^verbatim>\<open>TennisBall::update\<close> (lines 803-919) in the order of the source: the integration
  of velocity and position (lines 810-840), the net check (lines 842-880), the
  trajectory sample (line 883), the ground check (lines 885-913) and the bounds check
  (lines 915-918).
\<close>

definition integrate :: "real \<Rightarrow> TennisBall \<Rightarrow> TennisBall option" where
  "integrate dt b = do {
     let b = b\<lparr>time := time b + dt\<rparr>;
     let b = b\<lparr>vy := vy b - GRAVITY * dt\<rparr>;
     omega \<leftarrow> fdiv (spinRPM b * 2 * 3.14159265) 60;
     let magnusCoeff = 0.00015;
     let ballSpeed = sqrt (vx b * vx b + vy b * vy b);
     b \<leftarrow> (if ballSpeed > 0.1 then do {
            let magnusForce = magnusCoeff * omega * ballSpeed;
            magnusAccelY \<leftarrow> fdiv magnusForce BALL_MASS;
            Some (b\<lparr>vy := vy b - magnusAccelY * dt\<rparr>)
          } else Some b);
     let b = b\<lparr>y := y b + vy b * dt\<rparr>;
     let airResistanceForce = - airResistanceCoeff b * vx b * \<bar>vx b\<bar>;
     ax \<leftarrow> fdiv airResistanceForce BALL_MASS;
     let b = b\<lparr>vx := vx b + ax * dt\<rparr>;
     Some (b\<lparr>x := x b + vx b * dt\<rparr>)
   }"

definition crossedNet :: "real \<Rightarrow> real \<Rightarrow> real \<Rightarrow> bool" where
  "crossedNet NET_X prevX xPost \<longleftrightarrow>
     (prevX < NET_X \<and> xPost \<ge> NET_X) \<or> (prevX > NET_X \<and> xPost \<le> NET_X)"

definition netCollision :: "nat \<Rightarrow> real \<Rightarrow> real \<Rightarrow> TennisBall \<Rightarrow> TennisBall option" where
  "netCollision r prevX prevY b = do {
     NET_X \<leftarrow> fdiv COURT_LENGTH 2;
     let NET_ABSORPTION = 0.80;
     if crossedNet NET_X prevX (x b) then do {
       t \<leftarrow> fdiv (NET_X - prevX) (x b - prevX);
       let collisionY = prevY + t * (y b - prevY);
       if collisionY \<le> NET_HEIGHT + BALL_RADIUS then do {
         let b = b\<lparr>x := NET_X\<rparr>;
         let b = b\<lparr>y := collisionY\<rparr>;
         let b = b\<lparr>vx := - vx b * (1 - NET_ABSORPTION)\<rparr>;
         let b = b\<lparr>vy := vy b * (1 - NET_ABSORPTION)\<rparr>;
         q \<leftarrow> fdiv (real (r mod 100)) 100;
         let randomDeflection = (q - 0.5) * 0.3;
         let b = b\<lparr>vy := vy b + randomDeflection\<rparr>;
         let b = b\<lparr>spinRPM := spinRPM b * (1 - NET_ABSORPTION)\<rparr>;
         Some (if \<bar>vx b\<bar> < 0.5 \<and> \<bar>vy b\<bar> < 0.5 then b\<lparr>vx := 0\<rparr> else b)
       } else Some b
     } else Some b
   }"

definition groundCollision :: "TennisBall \<Rightarrow> TennisBall option" where
  "groundCollision b =
    (if y b \<le> 0 then do {
       let b = b\<lparr>y := 0\<rparr>;
       let b = (if bounceCount b < 3 then b\<lparr>bounces := bounces b @ [(time b, 0)]\<rparr> else b);
       let b = b\<lparr>vy := - vy b * coefficientOfRestitution (surface b)\<rparr>;
       let b = b\<lparr>vx := vx b * 0.8\<rparr>;
       q \<leftarrow> fdiv (spinRPM b) 5000;
       let spinEffect = q * 2;
       let b = b\<lparr>vx := vx b + spinEffect\<rparr>;
       let b = b\<lparr>spinRPM := spinRPM b * 0.7\<rparr>;
       let b = b\<lparr>bounceCount := bounceCount b + 1\<rparr>;
       Some (if \<bar>vy b\<bar> < 0.1 \<or> bounceCount b > 10
             then (let b = b\<lparr>isActive := False\<rparr>; b = b\<lparr>vy := 0\<rparr> in b\<lparr>vx := 0\<rparr>)
             else b)
     } else Some b)"

definition outOfBounds :: "TennisBall \<Rightarrow> TennisBall" where
  "outOfBounds b = (if x b < 0 \<or> x b > COURT_LENGTH then b\<lparr>isActive := False\<rparr> else b)"

definition update :: "nat \<Rightarrow> real \<Rightarrow> TennisBall \<Rightarrow> TennisBall option" where
  "update r dt b =
    (if \<not> isActive b then Some b
     else do {
       let prevX = x b;
       let prevY = y b;
       b \<leftarrow> integrate dt b;
       b \<leftarrow> netCollision r prevX prevY b;
       let b = b\<lparr>trajectory := trajectory b @ [(time b, y b)]\<rparr>;
       b \<leftarrow> groundCollision b;
       Some (outOfBounds b)
     })"

subsection \<open>Full listing: the application (lines 923-1359, 2367-2405)\<close>

datatype ScreenMode = MODE_ALL | MODE_CLAY | MODE_GRASS | MODE_HARD | MODE_LAVER

datatype AirResistanceMode = AIR_VACUUM | AIR_SEA_LEVEL | AIR_1000M | AIR_2000M

text \<open>\<^verbatim>\<open>airModes[mode].coefficient\<close> (lines 683-688).\<close>

fun airModes_coefficient :: "AirResistanceMode \<Rightarrow> real" where
  "airModes_coefficient AIR_VACUUM = 0.0"
| "airModes_coefficient AIR_SEA_LEVEL = 0.0005"
| "airModes_coefficient AIR_1000M = 0.00044"
| "airModes_coefficient AIR_2000M = 0.00039"

record RightyHitParams =
  force :: real
  angle :: real
  spin :: real
  confirmed :: bool

text \<open>
  The fields of \<^verbatim>\<open>D2DApp\<close> that \<^verbatim>\<open>Update\<close> reads or writes. The balls are
  separate heap objects that nothing else points to, so the application holds them by
  value.
\<close>

record D2DApp =
  balls :: "TennisBall list"
  simulationStarted :: bool
  simulationComplete :: bool
  currentScreen :: ScreenMode
  clayBall :: TennisBall
  grassBall :: TennisBall
  hardBall :: TennisBall
  laverBall :: TennisBall
  horizontalForce :: real
  launchAngle :: real
  ballSpin :: real
  visualPaceMultiplier :: real
  airResistanceMode :: AirResistanceMode
  waitingToRelaunch :: bool
  relaunchTimer :: real
  rightyPosition :: real
  ballHitRighty :: bool
  simulationPaused :: bool
  rightyHitForce :: real
  rightyHitAngle :: real
  rightyHitSpin :: real

definition RELAUNCH_DELAY :: real where "RELAUNCH_DELAY = 2.0"

definition CheckRightyCollision :: "D2DApp \<Rightarrow> TennisBall \<Rightarrow> bool" where
  "CheckRightyCollision a b =
    (if \<not> isActive b \<or> simulationPaused a then False
     else
       let RIGHTY_RADIUS = 0.05;
           RIGHTY_HEIGHT = NET_HEIGHT * 2.5;
           distX = \<bar>x b - rightyPosition a\<bar>
       in if distX \<le> (BALL_RADIUS + RIGHTY_RADIUS) \<and> y b \<ge> 0 \<and> y b \<le> RIGHTY_HEIGHT
          then True else False)"

definition ApplyRightyHit ::
  "real \<Rightarrow> real \<Rightarrow> real \<Rightarrow> D2DApp \<times> TennisBall \<Rightarrow> D2DApp \<times> TennisBall" where
  "ApplyRightyHit hitForce hitAngle hitSpin ab =
    (let a = fst ab; b = snd ab;
         totalVelocity = (hitForce / 600) * 30;
         totalVelocity = max 5 totalVelocity;
         angleRad = hitAngle * 3.14159265 / 180;
         b = b\<lparr>vx := - totalVelocity * cos angleRad\<rparr>;
         b = b\<lparr>vy := totalVelocity * sin angleRad\<rparr>;
         b = b\<lparr>spinRPM := hitSpin\<rparr>;
         b = b\<lparr>x := rightyPosition a - 0.1\<rparr>;
         a = a\<lparr>simulationPaused := False\<rparr>;
         a = a\<lparr>ballHitRighty := False\<rparr>
     in (a, b))"

text \<open>
  \<^verbatim>\<open>D2DApp::Update\<close> (lines 1092-1359). Its inputs from outside the program are
  parameters: \<open>RIGHTY_SPEED\<close> is the global loaded from the settings file,
  \<open>keyLeft\<close> and \<open>keyRight\<close> are the two \<^verbatim>\<open>GetAsyncKeyState\<close> tests, \<open>rnd i\<close> is
  the value of the \<open>i\<close>-th call of \<^verbatim>\<open>rand()\<close> in this tick, and \<open>dlg\<close> is
  \<^verbatim>\<open>ShowRightyHitDialog\<close>: from the parameters it is given, its return value and the
  parameters as it leaves them.

  The branches for \<^verbatim>\<open>MODE_CLAY\<close>, \<^verbatim>\<open>MODE_GRASS\<close>, \<^verbatim>\<open>MODE_HARD\<close> and
  \<^verbatim>\<open>MODE_LAVER\<close> (lines 1122-1180, 1181-1239, 1240-1298, 1299-1357) are the same text
  up to the ball they name; \<open>courtUpdate\<close> is that text, on the application state and
  the ball named.
\<close>

definition courtUpdate ::
  "real \<Rightarrow> (nat \<Rightarrow> nat) \<Rightarrow> (RightyHitParams \<Rightarrow> bool \<times> RightyHitParams) \<Rightarrow>
   D2DApp \<times> TennisBall \<Rightarrow> (D2DApp \<times> TennisBall) option" where
  "courtUpdate adjustedDT rnd dlg ab = do {
     let a = fst ab;
     let b = snd ab;
     let (a, b) =
       (if isActive b \<and> x b \<ge> COURT_LENGTH
        then (a\<lparr>waitingToRelaunch := True, relaunchTimer := 0\<rparr>, b\<lparr>isActive := False\<rparr>)
        else (a, b));
     if waitingToRelaunch a then do {
       let a = a\<lparr>relaunchTimer := relaunchTimer a + adjustedDT\<rparr>;
       if relaunchTimer a \<ge> RELAUNCH_DELAY then do {
         let a = a\<lparr>horizontalForce := 200 + real (rnd 0 mod 201)\<rparr>;
         let a = a\<lparr>launchAngle := 9 + real (rnd 1 mod 31)\<rparr>;
         let a = a\<lparr>ballSpin := 60 + real (rnd 2 mod 541)\<rparr>;
         let b = setAirResistance (airModes_coefficient (airResistanceMode a)) b;
         let b = resetForHorizontalShot (horizontalForce a) (launchAngle a) (ballSpin a) b;
         Some (a\<lparr>waitingToRelaunch := False, relaunchTimer := 0\<rparr>, b)
       } else Some (a, b)
     } else do {
       b \<leftarrow> update (rnd 0) adjustedDT b;
       let (a, b) =
         (if CheckRightyCollision a b then
            let a = a\<lparr>simulationPaused := True, ballHitRighty := True\<rparr>;
                params = \<lparr>force = rightyHitForce a, angle = rightyHitAngle a,
                          spin = rightyHitSpin a, confirmed = False\<rparr>;
                (ok, params) = dlg params
            in if ok \<and> confirmed params then
                 let a = a\<lparr>rightyHitForce := force params\<rparr>;
                     a = a\<lparr>rightyHitAngle := angle params\<rparr>;
                     a = a\<lparr>rightyHitSpin := spin params\<rparr>
                 in ApplyRightyHit (force params) (angle params) (spin params) (a, b)
               else
                 let b = b\<lparr>vx := - vx b * 0.5\<rparr>;
                     b = b\<lparr>x := rightyPosition a - 0.1\<rparr>;
                     a = a\<lparr>simulationPaused := False\<rparr>;
                     a = a\<lparr>ballHitRighty := False\<rparr>
                 in (a, b)
          else (a, b));
       Some (if \<not> isActive b then (a\<lparr>waitingToRelaunch := True, relaunchTimer := 0\<rparr>, b)
             else (a, b))
     }
   }"

text \<open>The loop over \<^verbatim>\<open>balls[0..3]\<close> of the \<^verbatim>\<open>MODE_ALL\<close> branch (lines 1114-1117).\<close>

fun updateBalls :: "(nat \<Rightarrow> nat) \<Rightarrow> nat \<Rightarrow> real \<Rightarrow> TennisBall list \<Rightarrow> TennisBall list option" where
  "updateBalls rnd i dt [] = Some []"
| "updateBalls rnd i dt (b # bs) = do {
     b' \<leftarrow> update (rnd i) dt b;
     bs' \<leftarrow> updateBalls rnd (i + 1) dt bs;
     Some (b' # bs')
   }"

text \<open>The ball of a single-court screen, and its update in the application.\<close>

fun courtBall :: "ScreenMode \<Rightarrow> D2DApp \<Rightarrow> TennisBall" where
  "courtBall MODE_CLAY a = clayBall a"
| "courtBall MODE_GRASS a = grassBall a"
| "courtBall MODE_HARD a = hardBall a"
| "courtBall MODE_LAVER a = laverBall a"
| "courtBall MODE_ALL a = clayBall a"

fun setCourtBall :: "ScreenMode \<Rightarrow> TennisBall \<Rightarrow> D2DApp \<Rightarrow> D2DApp" where
  "setCourtBall MODE_CLAY b a = a\<lparr>clayBall := b\<rparr>"
| "setCourtBall MODE_GRASS b a = a\<lparr>grassBall := b\<rparr>"
| "setCourtBall MODE_HARD b a = a\<lparr>hardBall := b\<rparr>"
| "setCourtBall MODE_LAVER b a = a\<lparr>laverBall := b\<rparr>"
| "setCourtBall MODE_ALL b a = a"

text \<open>The movement of RIGHTY by the arrow keys (lines 1098-1110).\<close>

definition moveRighty :: "real \<Rightarrow> bool \<Rightarrow> bool \<Rightarrow> D2DApp \<Rightarrow> D2DApp" where
  "moveRighty RIGHTY_SPEED keyLeft keyRight a =
    (if currentScreen a \<noteq> MODE_ALL then
       let NET_X = COURT_LENGTH / 2;
           a = (if keyLeft then
                  let a = a\<lparr>rightyPosition := rightyPosition a - RIGHTY_SPEED * DT\<rparr>
                  in a\<lparr>rightyPosition := max NET_X (rightyPosition a)\<rparr>
                else a);
           a = (if keyRight then
                  let a = a\<lparr>rightyPosition := rightyPosition a + RIGHTY_SPEED * DT\<rparr>
                  in a\<lparr>rightyPosition := min COURT_LENGTH (rightyPosition a)\<rparr>
                else a)
       in a
     else a)"

definition Update ::
  "real \<Rightarrow> bool \<Rightarrow> bool \<Rightarrow> (nat \<Rightarrow> nat) \<Rightarrow> (RightyHitParams \<Rightarrow> bool \<times> RightyHitParams) \<Rightarrow>
   D2DApp \<Rightarrow> D2DApp option" where
  "Update RIGHTY_SPEED keyLeft keyRight rnd dlg a =
    (if \<not> simulationStarted a \<or> simulationComplete a \<or> simulationPaused a then Some a
     else do {
       let adjustedDT = DT * visualPaceMultiplier a;
       let a = moveRighty RIGHTY_SPEED keyLeft keyRight a;
       if currentScreen a = MODE_ALL then do {
         bs \<leftarrow> updateBalls rnd 0 adjustedDT (balls a);
         let a = a\<lparr>balls := bs\<rparr>;
         let anyActive = list_ex isActive (balls a);
         Some (if \<not> anyActive then a\<lparr>simulationComplete := True\<rparr> else a)
       } else do {
         (a, b) \<leftarrow> courtUpdate adjustedDT rnd dlg (a, courtBall (currentScreen a) a);
         Some (setCourtBall (currentScreen a) b a)
       }
     })"

subsection \<open>Runs of the ball\<close>

text \<open>
  Successive calls \<^verbatim>\<open>update(dt)\<close> on one ball, one per tick; the list holds for each
  tick the value \<^verbatim>\<open>rand()\<close> returns if that tick calls it.
\<close>

fun run :: "nat list \<Rightarrow> real \<Rightarrow> TennisBall \<Rightarrow> TennisBall option" where
  "run [] dt b = Some b"
| "run (r # rs) dt b = update r dt b \<bind> run rs dt"

text \<open>
  A run is a free flight when in every tick the ball is active, the net check leaves
  the integrated state as it is, and the integrated height is above the ground.
\<close>

fun freeFlight :: "nat list \<Rightarrow> real \<Rightarrow> TennisBall \<Rightarrow> bool" where
  "freeFlight [] dt b = True"
| "freeFlight (r # rs) dt b =
    (isActive b \<and>
     (case integrate dt b of
        None \<Rightarrow> False
      | Some s \<Rightarrow>
          netCollision r (x b) (y b) s = Some s \<and> 0 < y s \<and>
          (case update r dt b of None \<Rightarrow> False | Some b' \<Rightarrow> freeFlight rs dt b')))"

text \<open>
  The states of a ball that the program can produce: the constructor, the methods of
  \<^verbatim>\<open>TennisBall\<close>, and the direct writes of \<^verbatim>\<open>D2DApp\<close> to a ball (the end of the
  court at lines 1124-1125, the cancelled return at lines 1168-1169, and
  \<^verbatim>\<open>ApplyRightyHit\<close>).
\<close>

inductive reachable :: "TennisBall \<Rightarrow> bool" where
  r_new: "reachable (TennisBall_new cs)"
| r_reset: "reachable b \<Longrightarrow> reachable (reset b)"
| r_air: "reachable b \<Longrightarrow> reachable (setAirResistance c b)"
| r_shot: "reachable b \<Longrightarrow> reachable (resetForHorizontalShot f ang s b)"
| r_update: "reachable b \<Longrightarrow> update r dt b = Some b' \<Longrightarrow> reachable b'"
| r_court_end: "reachable b \<Longrightarrow> reachable (b\<lparr>isActive := False\<rparr>)"
| r_cancel: "reachable b \<Longrightarrow> reachable (b\<lparr>vx := - vx b * 0.5, x := p - 0.1\<rparr>)"
| r_hit: "reachable b \<Longrightarrow> reachable (snd (ApplyRightyHit f ang s (a, b)))"

text \<open>The bound on the bounce counter that every tick keeps.\<close>

definition count_inv :: "TennisBall \<Rightarrow> bool" where
  "count_inv b \<longleftrightarrow> bounceCount b \<le> 11 \<and> (isActive b \<longrightarrow> bounceCount b \<le> 10)"

subsection \<open>Example states\<close>

text \<open>Concrete states and inputs at which the theorems below are instantiated.\<close>

definition restingBall :: TennisBall where
  "restingBall =
    \<lparr>y = 0, vy = 0, time = 3, bounceCount = 11, isActive = False,
     surface = courts ! 0, trajectory = [(0, 2)], bounces = [],
     x = 5, vx = 0, airResistanceCoeff = 0, spinRPM = 0\<rparr>"

definition restingDrop :: DropBall where
  "restingDrop =
    \<lparr>y = 0, vy = 0, time = 3, bounceCount = 11, isActive = False,
     surface = courts ! 0, trajectory = [(0, 2)], bounces = []\<rparr>"

text \<open>A ball just left of the net, flying right at 10 m/s at half a metre.\<close>

definition netBall :: TennisBall where
  "netBall =
    \<lparr>y = 0.5, vy = 0, time = 0, bounceCount = 0, isActive = True,
     surface = courts ! 0, trajectory = [(0, 0.5)], bounces = [],
     x = 11.8, vx = 10, airResistanceCoeff = 0, spinRPM = 0\<rparr>"

text \<open>Integrated states that have crossed the net plane from \<open>x = 11.8\<close>: low, and high.\<close>

definition netStruck :: TennisBall where
  "netStruck =
    \<lparr>y = 0.4, vy = -1, time = 0.01, bounceCount = 0, isActive = True,
     surface = courts ! 0, trajectory = [(0, 0.5)], bounces = [],
     x = 11.9, vx = 10, airResistanceCoeff = 0.0005, spinRPM = 1000\<rparr>"

definition netCleared :: TennisBall where
  "netCleared =
    \<lparr>y = 1.5, vy = -1, time = 0.01, bounceCount = 0, isActive = True,
     surface = courts ! 0, trajectory = [(0, 1.5)], bounces = [],
     x = 11.9, vx = 10, airResistanceCoeff = 0.0005, spinRPM = 1000\<rparr>"

text \<open>A ball about to touch down slowly, and its state after the integration of a tick of 0.01 s.\<close>

definition landingBall :: TennisBall where
  "landingBall =
    \<lparr>y = 0.001, vy = -0.01, time = 1, bounceCount = 1, isActive = True,
     surface = courts ! 0, trajectory = [(0, 2)], bounces = [],
     x = 5, vx = 0, airResistanceCoeff = 0, spinRPM = 0\<rparr>"

definition landed :: TennisBall where
  "landed =
    \<lparr>y = -0.000081, vy = -0.1081, time = 1.01, bounceCount = 1, isActive = True,
     surface = courts ! 0, trajectory = [(0, 2)], bounces = [],
     x = 5, vx = 0, airResistanceCoeff = 0, spinRPM = 0\<rparr>"

text \<open>
  A ball 5 mm left of the net plane and 1 cm above the ground, flying right and down:
  within a tick of 0.01 s it both crosses the net plane and is integrated below the
  ground.
\<close>

definition skimBall :: TennisBall where
  "skimBall =
    \<lparr>y = 0.01, vy = -2, time = 1, bounceCount = 0, isActive = True,
     surface = courts ! 0, trajectory = [(0, 1)], bounces = [],
     x = 11.88, vx = 10, airResistanceCoeff = 0, spinRPM = 0\<rparr>"

text \<open>A ball that reaches RIGHTY, standing at 22.77 m, within one tick.\<close>

definition approachingBall :: TennisBall where
  "approachingBall =
    \<lparr>y = 1, vy = 0, time = 1, bounceCount = 0, isActive = True,
     surface = courts ! 0, trajectory = [(0, 1)], bounces = [],
     x = 22.6, vx = 10, airResistanceCoeff = 0, spinRPM = 0\<rparr>"

definition playApp :: D2DApp where
  "playApp =
    \<lparr>balls = [], simulationStarted = True, simulationComplete = False,
     currentScreen = MODE_CLAY, clayBall = approachingBall, grassBall = restingBall,
     hardBall = restingBall, laverBall = restingBall, horizontalForce = 270,
     launchAngle = 39, ballSpin = 120, visualPaceMultiplier = 2,
     airResistanceMode = AIR_SEA_LEVEL, waitingToRelaunch = False, relaunchTimer = 0,
     rightyPosition = 22.77, ballHitRighty = False, simulationPaused = False,
     rightyHitForce = 300, rightyHitAngle = 30, rightyHitSpin = 120\<rparr>"

text \<open>The application 0.01 s before the relaunch timer runs out.\<close>

definition waitingApp :: D2DApp where
  "waitingApp =
    \<lparr>balls = [], simulationStarted = True, simulationComplete = False,
     currentScreen = MODE_CLAY, clayBall = restingBall, grassBall = restingBall,
     hardBall = restingBall, laverBall = restingBall, horizontalForce = 270,
     launchAngle = 39, ballSpin = 120, visualPaceMultiplier = 2,
     airResistanceMode = AIR_SEA_LEVEL, waitingToRelaunch = True, relaunchTimer = 1.99,
     rightyPosition = 22.77, ballHitRighty = False, simulationPaused = False,
     rightyHitForce = 300, rightyHitAngle = 30, rightyHitSpin = 120\<rparr>"

text \<open>Values of \<^verbatim>\<open>rand()\<close>: the same value at every call, and the three calls of a
  relaunch returning 200, 30 and 540.\<close>

definition rndConst :: "nat \<Rightarrow> nat \<Rightarrow> nat" where
  "rndConst k i = k"

definition rndTop :: "nat \<Rightarrow> nat" where
  "rndTop i = (if i = 0 then 200 else if i = 1 then 30 else 540)"

text \<open>A dialog that is cancelled: it returns false and leaves the parameters as they are.\<close>

definition dlgCancel :: "RightyHitParams \<Rightarrow> bool \<times> RightyHitParams" where
  "dlgCancel params = (False, params)"

text \<open>
  A ball that reaches the ground with topspin within a tick of 0.01 s, and its state
  after the integration of that tick (speed 5 m/s, Magnus acceleration 0.7853981625).
\<close>

definition bounceBall :: TennisBall where
  "bounceBall =
    \<lparr>y = 0.03, vy = -3.9019, time = 0.6, bounceCount = 0, isActive = True,
     surface = courts ! 0, trajectory = [(0, 2)], bounces = [],
     x = 5, vx = 3, airResistanceCoeff = 0, spinRPM = 580\<rparr>"

definition bounceIntegrated :: TennisBall where
  "bounceIntegrated =
    \<lparr>y = -0.01007853981625, vy = -4.007853981625, time = 0.61, bounceCount = 0,
     isActive = True, surface = courts ! 0, trajectory = [(0, 2)], bounces = [],
     x = 5.03, vx = 3, airResistanceCoeff = 0, spinRPM = 580\<rparr>"

text \<open>A spinning ball slower than 0.1 m/s after gravity has acted for 0.01 s.\<close>

definition slowBall :: TennisBall where
  "slowBall =
    \<lparr>y = 0.5, vy = 0.05, time = 1, bounceCount = 1, isActive = True,
     surface = courts ! 0, trajectory = [(0, 2)], bounces = [],
     x = 5, vx = 0.02, airResistanceCoeff = 0.0005, spinRPM = 1000\<rparr>"

section \<open>Properties\<close>

subsection \<open>Auxiliary facts\<close>

lemmas consts_defs =
  GRAVITY_def BALL_RADIUS_def INITIAL_HEIGHT_def WINDOW_WIDTH_def DT_def COURT_LENGTH_def
  NET_HEIGHT_def BALL_MASS_def MAX_HORIZONTAL_FORCE_def

lemma sqrt_gt_tenth: "(sqrt a > 0.1) = (a > 0.01)"
proof -
  have "sqrt (0.01::real) = 0.1"
    by (rule real_sqrt_unique) (simp_all add: power2_eq_square)
  then show ?thesis
    by (metis real_sqrt_less_iff)
qed

lemma sqrt_le_tenth: "(sqrt a \<le> 0.1) = (a \<le> 0.01)"
  using sqrt_gt_tenth[of a] by linarith

lemma crossedNet_divisor: "crossedNet n prevX xPost \<Longrightarrow> xPost - prevX \<noteq> 0"
  by (auto simp: crossedNet_def)

lemma integrate_total: "\<exists>s. integrate dt b = Some s"
  by (simp add: integrate_def fdiv_def BALL_MASS_def Let_def)

lemma netCollision_total: "\<exists>s. netCollision r prevX prevY b = Some s"
proof (cases "crossedNet (COURT_LENGTH / 2) prevX (x b)")
  case True
  then have "x b - prevX \<noteq> 0" by (rule crossedNet_divisor)
  then show ?thesis
    by (simp add: netCollision_def fdiv_def COURT_LENGTH_def Let_def)
next
  case False
  then show ?thesis
    by (simp add: netCollision_def fdiv_def COURT_LENGTH_def Let_def)
qed

lemma groundCollision_total: "\<exists>s. groundCollision b = Some s"
  by (simp add: groundCollision_def fdiv_def Let_def)

lemma integrate_keeps:
  "integrate dt b = Some s \<Longrightarrow> isActive s = isActive b \<and> bounceCount s = bounceCount b"
  by (auto simp: integrate_def fdiv_def BALL_MASS_def Let_def split: if_splits)

lemma netCollision_keeps:
  "netCollision r px py b = Some s \<Longrightarrow> isActive s = isActive b \<and> bounceCount s = bounceCount b"
  by (auto simp: netCollision_def fdiv_def Let_def split: if_splits)

lemma outOfBounds_fields:
  "y (outOfBounds b) = y b \<and> vy (outOfBounds b) = vy b \<and> vx (outOfBounds b) = vx b \<and>
   spinRPM (outOfBounds b) = spinRPM b \<and>
   bounceCount (outOfBounds b) = bounceCount b \<and> (isActive (outOfBounds b) \<longrightarrow> isActive b)"
  by (simp add: outOfBounds_def)

text \<open>The ground check, in closed form: the bounce, then the stop test on its result.\<close>

lemma groundCollision_closed:
  assumes "y b \<le> 0"
  shows "groundCollision b =
    Some (let b' = b\<lparr>y := 0,
                      bounces := (if bounceCount b < 3 then bounces b @ [(time b, 0)] else bounces b),
                      vy := - coefficientOfRestitution (surface b) * vy b,
                      vx := 0.8 * vx b + (spinRPM b / 5000) * 2.0,
                      spinRPM := 0.7 * spinRPM b,
                      bounceCount := bounceCount b + 1\<rparr>
          in if \<bar>vy b'\<bar> < 0.1 \<or> bounceCount b' > 10
             then b'\<lparr>isActive := False, vy := 0, vx := 0\<rparr> else b')"
  using assms by (simp add: groundCollision_def fdiv_def Let_def mult.commute)

text \<open>A tick of an active ball is the composition of its stages.\<close>

lemma update_stages:
  assumes "isActive b" and "integrate dt b = Some s1"
    and "netCollision r (x b) (y b) s1 = Some s2"
    and "groundCollision (s2\<lparr>trajectory := trajectory s2 @ [(time s2, y s2)]\<rparr>) = Some s3"
  shows "update r dt b = Some (outOfBounds s3)"
  using assms by (simp add: update_def)

lemma update_stagesE:
  assumes "isActive b" and "update r dt b = Some b'"
  obtains s1 s2 s3 where "integrate dt b = Some s1"
    and "netCollision r (x b) (y b) s1 = Some s2"
    and "groundCollision (s2\<lparr>trajectory := trajectory s2 @ [(time s2, y s2)]\<rparr>) = Some s3"
    and "b' = outOfBounds s3"
  using assms by (auto simp: update_def Let_def split: bind_splits)

subsection \<open>The bounce counter is bounded\<close>

lemma groundCollision_count:
  "groundCollision b = Some s \<Longrightarrow> bounceCount b \<le> 10 \<Longrightarrow>
     bounceCount s \<le> 11 \<and> (isActive s \<longrightarrow> bounceCount s \<le> 10)"
  by (auto simp: groundCollision_def fdiv_def Let_def split: if_splits)

lemma update_count_inv:
  assumes i: "count_inv b" and u: "update r dt b = Some b'"
  shows "count_inv b'"
proof (cases "isActive b")
  case False
  with i u show ?thesis by (simp add: update_def)
next
  case True
  from True u obtain s1 s2 s3 where
    s1: "integrate dt b = Some s1" and
    s2: "netCollision r (x b) (y b) s1 = Some s2" and
    s3: "groundCollision (s2\<lparr>trajectory := trajectory s2 @ [(time s2, y s2)]\<rparr>) = Some s3" and
    b': "b' = outOfBounds s3"
    by (rule update_stagesE)
  have "bounceCount s2 \<le> 10"
    using i True integrate_keeps[OF s1] netCollision_keeps[OF s2] by (simp add: count_inv_def)
  then have "bounceCount s3 \<le> 11 \<and> (isActive s3 \<longrightarrow> bounceCount s3 \<le> 10)"
    using groundCollision_count[OF s3] by simp
  then show ?thesis
    using b' outOfBounds_fields[of s3] by (auto simp: count_inv_def)
qed

lemma reachable_count_inv: "reachable b \<Longrightarrow> count_inv b"
proof (induction rule: reachable.induct)
  case (r_update b r dt b')
  then show ?case using update_count_inv by blast
qed (auto simp: count_inv_def TennisBall_new_def reset_def resetForHorizontalShot_def
       setAirResistance_def ApplyRightyHit_def Let_def)

subsection \<open>Free flight without spin\<close>

lemma integrate_no_spin:
  assumes "spinRPM b = 0" and "integrate dt b = Some s"
  shows "vy s = vy b - GRAVITY * dt \<and> y s = y b + (vy b - GRAVITY * dt) * dt \<and> spinRPM s = 0"
  using assms
  by (auto simp: integrate_def fdiv_def BALL_MASS_def Let_def split: if_splits)

lemma free_step:
  assumes "isActive b" and "integrate dt b = Some s"
    and "netCollision r (x b) (y b) s = Some s" and "0 < y s"
  shows "update r dt b = Some (outOfBounds (s\<lparr>trajectory := trajectory s @ [(time s, y s)]\<rparr>))"
  using assms by (simp add: update_def groundCollision_def)

lemma free_flight_state:
  "spinRPM b = 0 \<Longrightarrow> freeFlight rs dt b \<Longrightarrow>
   \<exists>b'. run rs dt b = Some b' \<and> spinRPM b' = 0 \<and>
        vy b' = vy b - GRAVITY * (real (length rs) * dt) \<and>
        y b' = y b + vy b * (real (length rs) * dt)
               - GRAVITY * dt * dt * (real (length rs) * (real (length rs) + 1) / 2)"
proof (induction rs arbitrary: b)
  case Nil
  then show ?case by simp
next
  case (Cons r rs)
  from Cons.prems(2) obtain s b1 where
    act: "isActive b" and s: "integrate dt b = Some s" and
    net: "netCollision r (x b) (y b) s = Some s" and pos: "0 < y s" and
    u: "update r dt b = Some b1" and ff: "freeFlight rs dt b1"
    by (auto split: option.splits)
  have b1: "b1 = outOfBounds (s\<lparr>trajectory := trajectory s @ [(time s, y s)]\<rparr>)"
    using free_step[OF act s net pos] u by simp
  have s_vals: "vy s = vy b - GRAVITY * dt" "y s = y b + (vy b - GRAVITY * dt) * dt" "spinRPM s = 0"
    using integrate_no_spin[OF Cons.prems(1) s] by simp_all
  have b1_vals: "vy b1 = vy b - GRAVITY * dt" "y b1 = y b + (vy b - GRAVITY * dt) * dt" "spinRPM b1 = 0"
    using b1 s_vals by (simp_all add: outOfBounds_fields)
  from Cons.IH[OF b1_vals(3) ff] obtain b' where
    r: "run rs dt b1 = Some b'" and sp: "spinRPM b' = 0" and
    v: "vy b' = vy b1 - GRAVITY * (real (length rs) * dt)" and
    h: "y b' = y b1 + vy b1 * (real (length rs) * dt)
               - GRAVITY * dt * dt * (real (length rs) * (real (length rs) + 1) / 2)"
    by blast
  have "run (r # rs) dt b = Some b'" using u r by simp
  moreover have "vy b' = vy b - GRAVITY * (real (length (r # rs)) * dt)"
    using v b1_vals by (simp add: algebra_simps)
  moreover have "y b' = y b + vy b * (real (length (r # rs)) * dt)
               - GRAVITY * dt * dt * (real (length (r # rs)) * (real (length (r # rs)) + 1) / 2)"
    unfolding h b1_vals(1) b1_vals(2) by (simp add: field_simps)
  ultimately show ?case using sp by blast
qed

subsection \<open>C1: a ball that strikes the net\<close>

text \<open>
  C1, as amended. When the integrated position has crossed the net plane
  \<open>x = COURT_LENGTH / 2\<close> and the linearly interpolated crossing height is at most
  \<open>NET_HEIGHT + BALL_RADIUS\<close>, the net check sets \<open>x\<close> to the net plane and \<open>y\<close> to the
  interpolated height, replaces \<open>vx\<close> by \<open>- (1 - 0.8) * vx\<close> (the horizontal velocity is
  reflected: its sign is reversed), replaces \<open>vy\<close> by \<open>(1 - 0.8) * vy\<close> plus the random
  deflection \<open>((rand() mod 100) / 100 - 0.5) * 0.3\<close>, multiplies the spin by \<open>1 - 0.8\<close>,
  and then sets \<open>vx\<close> to 0 when both \<open>\<bar>vx\<bar> < 0.5\<close> and \<open>\<bar>vy\<bar> < 0.5\<close>. No other field
  changes.
\<close>

theorem net_hit_values:
  assumes "crossedNet (COURT_LENGTH / 2) prevX (x b)"
    and "prevY + (COURT_LENGTH / 2 - prevX) / (x b - prevX) * (y b - prevY)
           \<le> NET_HEIGHT + BALL_RADIUS"
  shows "netCollision r prevX prevY b =
    Some (let b' = b\<lparr>x := COURT_LENGTH / 2,
                      y := prevY + (COURT_LENGTH / 2 - prevX) / (x b - prevX) * (y b - prevY),
                      vx := - (1 - 0.8) * vx b,
                      vy := (1 - 0.8) * vy b + (real (r mod 100) / 100 - 0.5) * 0.3,
                      spinRPM := (1 - 0.8) * spinRPM b\<rparr>
          in if \<bar>vx b'\<bar> < 0.5 \<and> \<bar>vy b'\<bar> < 0.5 then b'\<lparr>vx := 0\<rparr> else b')"
proof -
  have "x b - prevX \<noteq> 0" using assms(1) by (rule crossedNet_divisor)
  then show ?thesis using assms
    by (simp add: netCollision_def fdiv_def COURT_LENGTH_def Let_def)
qed

theorem net_hit_values_witness:
  "crossedNet (COURT_LENGTH / 2) 11.8 (x netStruck) \<and>
   0.5 + (COURT_LENGTH / 2 - 11.8) / (x netStruck - 11.8) * (y netStruck - 0.5)
     \<le> NET_HEIGHT + BALL_RADIUS \<and>
   netCollision 75 11.8 0.5 netStruck =
     Some (netStruck\<lparr>x := 11.885, y := 0.415, vx := - 2, vy := - 0.125, spinRPM := 200\<rparr>)"
  using net_hit_values [of "11.8" netStruck "0.5" 75]
  by (simp add: netStruck_def crossedNet_def consts_defs)

text \<open>
  C1 as stated fails: the ball \<open>netBall\<close> crosses the net plane at a height of about
  0.499 m with the integrated velocity (10, -0.0981) m/s. The tick snaps it to the net
  plane and leaves it with the horizontal velocity -2 m/s, not 2 m/s, and, \<^verbatim>\<open>rand()\<close>
  returning 75, with the vertical velocity 0.05538 m/s, not -0.01962 m/s.
\<close>

theorem net_hit_sign_counterexample:
  "map_option vx (integrate 0.01 netBall) = Some 10 \<and>
   map_option vy (integrate 0.01 netBall) = Some (- 0.0981) \<and>
   map_option x (update 75 0.01 netBall) = Some 11.885 \<and>
   map_option vx (update 75 0.01 netBall) = Some (- 2) \<and>
   map_option vy (update 75 0.01 netBall) = Some 0.05538"
  by (simp add: update_def netBall_def integrate_def netCollision_def groundCollision_def
        outOfBounds_def fdiv_def consts_defs crossedNet_def sqrt_gt_tenth courts_def Let_def)

subsection \<open>C2: the randomized relaunch\<close>

lemma moveRighty_eq:
  "moveRighty S kl kr a = a\<lparr>rightyPosition := rightyPosition (moveRighty S kl kr a)\<rparr>"
  by (simp add: moveRighty_def Let_def)

lemma setCourtBall_courtBall:
  "scr \<noteq> MODE_ALL \<Longrightarrow> courtBall scr (setCourtBall scr b a) = b"
  by (cases scr) simp_all

lemma setCourtBall_fields:
  "horizontalForce (setCourtBall scr b a) = horizontalForce a \<and>
   launchAngle (setCourtBall scr b a) = launchAngle a \<and>
   ballSpin (setCourtBall scr b a) = ballSpin a \<and>
   waitingToRelaunch (setCourtBall scr b a) = waitingToRelaunch a \<and>
   simulationPaused (setCourtBall scr b a) = simulationPaused a \<and>
   ballHitRighty (setCourtBall scr b a) = ballHitRighty a \<and>
   rightyPosition (setCourtBall scr b a) = rightyPosition a \<and>
   currentScreen (setCourtBall scr b a) = currentScreen a"
  by (cases scr) simp_all

lemma courtBall_rightyPosition:
  "courtBall scr (a\<lparr>rightyPosition := p\<rparr>) = courtBall scr a"
  by (cases scr) simp_all

lemma shot_ignores_isActive:
  "resetForHorizontalShot f ang s (setAirResistance c (b\<lparr>isActive := v\<rparr>)) =
   resetForHorizontalShot f ang s (setAirResistance c b)"
  by (simp add: resetForHorizontalShot_def setAirResistance_def Let_def)

text \<open>The relaunch branch of \<open>courtUpdate\<close>, in closed form.\<close>

lemma courtUpdate_relaunch:
  assumes "waitingToRelaunch a \<or> (isActive b \<and> COURT_LENGTH \<le> x b)"
    and "RELAUNCH_DELAY \<le> (if isActive b \<and> COURT_LENGTH \<le> x b then 0 else relaunchTimer a) + adjustedDT"
  shows "courtUpdate adjustedDT rnd dlg (a, b) =
    Some (a\<lparr>horizontalForce := 200 + real (rnd 0 mod 201),
            launchAngle := 9 + real (rnd 1 mod 31),
            ballSpin := 60 + real (rnd 2 mod 541),
            waitingToRelaunch := False, relaunchTimer := 0\<rparr>,
          resetForHorizontalShot (200 + real (rnd 0 mod 201)) (9 + real (rnd 1 mod 31))
            (60 + real (rnd 2 mod 541))
            (setAirResistance (airModes_coefficient (airResistanceMode a)) b))"
proof -
  consider (ended) "isActive b" "COURT_LENGTH \<le> x b"
    | (flying) "isActive b" "\<not> COURT_LENGTH \<le> x b"
    | (stopped) "\<not> isActive b"
    by blast
  then show ?thesis
  proof cases
    case ended
    then show ?thesis using assms(2)
      by (simp add: courtUpdate_def Let_def shot_ignores_isActive)
  next
    case flying
    then have "waitingToRelaunch a" "RELAUNCH_DELAY \<le> relaunchTimer a + adjustedDT"
      using assms by simp_all
    with flying show ?thesis
      by (simp add: courtUpdate_def Let_def)
  next
    case stopped
    then have "waitingToRelaunch a" "RELAUNCH_DELAY \<le> relaunchTimer a + adjustedDT"
      using assms by simp_all
    with stopped show ?thesis
      by (simp add: courtUpdate_def Let_def)
  qed
qed

text \<open>
  C2, as amended. Whenever the relaunch timer reaches the 2-second delay in a
  single-court view, the new shot has, for every value the three calls of \<^verbatim>\<open>rand()\<close>
  return, a force that is an integer of the closed range [200, 400], an angle that is
  an integer of the closed range [9, 39] and a spin that is an integer of the closed
  range [60, 600]; the ball of the court is relaunched with these values.
\<close>

theorem relaunch_ranges:
  assumes "simulationStarted a" and "\<not> simulationComplete a" and "\<not> simulationPaused a"
    and "currentScreen a \<noteq> MODE_ALL"
    and "b = courtBall (currentScreen a) a"
    and "waitingToRelaunch a \<or> (isActive b \<and> COURT_LENGTH \<le> x b)"
    and "RELAUNCH_DELAY \<le> (if isActive b \<and> COURT_LENGTH \<le> x b then 0 else relaunchTimer a)
                            + DT * visualPaceMultiplier a"
  shows "\<exists>a'. Update RIGHTY_SPEED keyLeft keyRight rnd dlg a = Some a' \<and>
     horizontalForce a' = 200 + real (rnd 0 mod 201) \<and>
     200 \<le> horizontalForce a' \<and> horizontalForce a' \<le> 400 \<and>
     launchAngle a' = 9 + real (rnd 1 mod 31) \<and>
     9 \<le> launchAngle a' \<and> launchAngle a' \<le> 39 \<and>
     ballSpin a' = 60 + real (rnd 2 mod 541) \<and>
     60 \<le> ballSpin a' \<and> ballSpin a' \<le> 600 \<and>
     \<not> waitingToRelaunch a' \<and>
     courtBall (currentScreen a) a' =
       resetForHorizontalShot (horizontalForce a') (launchAngle a') (ballSpin a')
         (setAirResistance (airModes_coefficient (airResistanceMode a)) b)"
proof -
  define a1 where "a1 = moveRighty RIGHTY_SPEED keyLeft keyRight a"
  have a1: "a1 = a\<lparr>rightyPosition := rightyPosition a1\<rparr>"
    unfolding a1_def by (rule moveRighty_eq)
  have scr: "currentScreen a1 = currentScreen a" and w: "waitingToRelaunch a1 = waitingToRelaunch a"
    and t: "relaunchTimer a1 = relaunchTimer a" and m: "airResistanceMode a1 = airResistanceMode a"
    and cb: "courtBall (currentScreen a) a1 = b"
    by (subst a1, simp add: assms(5) courtBall_rightyPosition)+
  have cu: "courtUpdate (DT * visualPaceMultiplier a) rnd dlg (a1, b) =
    Some (a1\<lparr>horizontalForce := 200 + real (rnd 0 mod 201),
            launchAngle := 9 + real (rnd 1 mod 31),
            ballSpin := 60 + real (rnd 2 mod 541),
            waitingToRelaunch := False, relaunchTimer := 0\<rparr>,
          resetForHorizontalShot (200 + real (rnd 0 mod 201)) (9 + real (rnd 1 mod 31))
            (60 + real (rnd 2 mod 541))
            (setAirResistance (airModes_coefficient (airResistanceMode a)) b))"
    using courtUpdate_relaunch[of a1 b "DT * visualPaceMultiplier a" rnd dlg,
        unfolded w t m, OF assms(6) assms(7)] .
  have r0: "rnd 0 mod 201 \<le> 200" and r1: "rnd 1 mod 31 \<le> 30" and r2: "rnd 2 mod 541 \<le> 540"
    by simp_all
  have "real (rnd 0 mod 201) \<le> 200" and "real (rnd 1 mod 31) \<le> 30" and "real (rnd 2 mod 541) \<le> 540"
    using r0 r1 r2 by linarith+
  then show ?thesis
    using assms(1-4) cu scr cb
    by (simp add: Update_def Let_def a1_def[symmetric] setCourtBall_fields setCourtBall_courtBall)
qed

theorem relaunch_ranges_witness:
  "simulationStarted waitingApp \<and> \<not> simulationComplete waitingApp \<and>
   \<not> simulationPaused waitingApp \<and> currentScreen waitingApp \<noteq> MODE_ALL \<and>
   waitingToRelaunch waitingApp \<and>
   RELAUNCH_DELAY \<le> relaunchTimer waitingApp + DT * visualPaceMultiplier waitingApp \<and>
   (\<exists>a'. Update 4 False False (rndConst 7) dlgCancel waitingApp = Some a' \<and>
      horizontalForce a' = 207 \<and> launchAngle a' = 16 \<and> ballSpin a' = 67 \<and>
      clayBall a' = resetForHorizontalShot 207 16 67 (setAirResistance 0.0005 restingBall))"
proof -
  have h: "simulationStarted waitingApp" "\<not> simulationComplete waitingApp"
    "\<not> simulationPaused waitingApp" "currentScreen waitingApp \<noteq> MODE_ALL"
    "restingBall = courtBall (currentScreen waitingApp) waitingApp"
    "waitingToRelaunch waitingApp \<or> (isActive restingBall \<and> COURT_LENGTH \<le> x restingBall)"
    "RELAUNCH_DELAY \<le> (if isActive restingBall \<and> COURT_LENGTH \<le> x restingBall then 0
                          else relaunchTimer waitingApp) + DT * visualPaceMultiplier waitingApp"
    by (simp_all add: waitingApp_def restingBall_def RELAUNCH_DELAY_def DT_def)
  from relaunch_ranges [OF h, of 4 False False "rndConst 7" dlgCancel]
  obtain a' where a': "Update 4 False False (rndConst 7) dlgCancel waitingApp = Some a'"
    "horizontalForce a' = 200 + real (rndConst 7 0 mod 201)"
    "launchAngle a' = 9 + real (rndConst 7 1 mod 31)"
    "ballSpin a' = 60 + real (rndConst 7 2 mod 541)"
    "courtBall (currentScreen waitingApp) a' =
       resetForHorizontalShot (horizontalForce a') (launchAngle a') (ballSpin a')
         (setAirResistance (airModes_coefficient (airResistanceMode waitingApp)) restingBall)"
    by blast
  have "horizontalForce a' = 207" "launchAngle a' = 16" "ballSpin a' = 67"
    using a'(2-4) by (simp_all add: rndConst_def)
  moreover from this have "clayBall a' = resetForHorizontalShot 207 16 67 (setAirResistance 0.0005 restingBall)"
    using a'(5) by (simp add: waitingApp_def)
  moreover have "waitingToRelaunch waitingApp"
    "RELAUNCH_DELAY \<le> relaunchTimer waitingApp + DT * visualPaceMultiplier waitingApp"
    by (simp_all add: waitingApp_def RELAUNCH_DELAY_def DT_def)
  ultimately show ?thesis using h(1-4) a'(1) by blast
qed

text \<open>
  C2 as stated fails: when the three calls of \<^verbatim>\<open>rand()\<close> return 200, 30 and 540, the
  relaunch draws the force 400 N, the angle 39 degrees and the spin 600 RPM, the upper
  ends that the half-open ranges exclude.
\<close>

theorem relaunch_ranges_counterexample:
  "map_option horizontalForce (Update 4 False False rndTop dlgCancel waitingApp) = Some 400 \<and>
   map_option launchAngle (Update 4 False False rndTop dlgCancel waitingApp) = Some 39 \<and>
   map_option ballSpin (Update 4 False False rndTop dlgCancel waitingApp) = Some 600"
  by (simp add: Update_def moveRighty_def courtUpdate_def waitingApp_def restingBall_def
        rndTop_def RELAUNCH_DELAY_def DT_def Let_def)

subsection \<open>C3: the trajectory without spin and drag\<close>

text \<open>
  C3, as amended. For every ball with spin 0 and air-drag coefficient 0, and for every
  number \<open>n\<close> of \<open>update(dt)\<close> steps in each of which the ball is active, does not
  strike the net and stays above the ground, the height after those steps is, in exact
  arithmetic, \<open>y0 + vy0 * t - g * t\<^sup>2 / 2 - g * dt * t / 2\<close> with \<open>t = n * dt\<close>: the
  parabola of the claim lowered by the term \<open>g * dt * t / 2\<close> of the semi-implicit
  Euler step, which updates the velocity before the position.
\<close>

theorem free_flight_height:
  assumes "spinRPM b = 0" and "airResistanceCoeff b = 0" and "freeFlight rs dt b"
  shows "\<exists>b'. run rs dt b = Some b' \<and>
     (let t = real (length rs) * dt
      in y b' = y b + vy b * t - GRAVITY * t\<^sup>2 / 2 - GRAVITY * dt * t / 2)"
proof -
  from free_flight_state[OF assms(1) assms(3)] obtain b' where
    r: "run rs dt b = Some b'" and
    h: "y b' = y b + vy b * (real (length rs) * dt)
               - GRAVITY * dt * dt * (real (length rs) * (real (length rs) + 1) / 2)"
    by blast
  have "y b' = y b + vy b * (real (length rs) * dt) - GRAVITY * (real (length rs) * dt)\<^sup>2 / 2
               - GRAVITY * dt * (real (length rs) * dt) / 2"
    unfolding h by (simp add: field_simps power2_eq_square)
  then show ?thesis using r by (simp add: Let_def)
qed

lemma new_ball_two_ticks:
  "freeFlight [0, 0] 0.1 (TennisBall_new (courts ! 0))"
  by (simp add: TennisBall_new_def reset_def update_def integrate_def netCollision_def
        groundCollision_def outOfBounds_def fdiv_def consts_defs crossedNet_def sqrt_gt_tenth
        courts_def Let_def)

theorem free_flight_height_witness:
  "spinRPM (TennisBall_new (courts ! 0)) = 0 \<and>
   airResistanceCoeff (TennisBall_new (courts ! 0)) = 0 \<and>
   freeFlight [0, 0] 0.1 (TennisBall_new (courts ! 0)) \<and>
   (\<exists>b'. run [0, 0] 0.1 (TennisBall_new (courts ! 0)) = Some b' \<and> y b' = 1.7057)"
proof -
  have h: "spinRPM (TennisBall_new (courts ! 0)) = 0"
    "airResistanceCoeff (TennisBall_new (courts ! 0)) = 0"
    by (simp_all add: TennisBall_new_def reset_def Let_def)
  from free_flight_height [OF h new_ball_two_ticks]
  obtain b' where b': "run [0, 0] 0.1 (TennisBall_new (courts ! 0)) = Some b'"
    "let t = real (length [0::nat, 0]) * 0.1
     in y b' = y (TennisBall_new (courts ! 0)) + vy (TennisBall_new (courts ! 0)) * t
               - GRAVITY * t\<^sup>2 / 2 - GRAVITY * 0.1 * t / 2"
    by blast
  have "y b' = 1.7057"
    using b'(2) by (simp add: TennisBall_new_def reset_def Let_def consts_defs power2_eq_square)
  then show ?thesis using h new_ball_two_ticks b'(1) by blast
qed

text \<open>
  C3 as stated fails: a new ball (height 2 m, at rest, spin 0, drag 0) is at 1.9019 m
  after one tick of 0.1 s, above the ground, where the parabola gives 1.95095 m.
\<close>

theorem free_flight_parabola_counterexample:
  "spinRPM (TennisBall_new (courts ! 0)) = 0 \<and>
   airResistanceCoeff (TennisBall_new (courts ! 0)) = 0 \<and>
   map_option y (run [0] 0.1 (TennisBall_new (courts ! 0))) = Some 1.9019 \<and>
   y (TennisBall_new (courts ! 0)) + vy (TennisBall_new (courts ! 0)) * 0.1
     - GRAVITY * 0.1\<^sup>2 / 2 = 1.95095"
  by (simp add: TennisBall_new_def reset_def update_def integrate_def netCollision_def
        groundCollision_def outOfBounds_def fdiv_def consts_defs crossedNet_def sqrt_gt_tenth
        courts_def Let_def power2_eq_square)

subsection \<open>C4: the bounce\<close>

text \<open>
  C4, as amended. Whenever the ground check of a tick of an active ball finds \<open>y \<le> 0\<close>,
  where \<open>y\<close> is the height that the integration and then the net check of the same tick
  leave (state \<open>s\<close>), ground resolution produces exactly: \<open>y = 0\<close>; \<open>vy\<close> replaced by
  \<open>- e * vy\<close> with \<open>e\<close> the coefficient of restitution of the surface; \<open>vx\<close> replaced by
  \<open>0.8 * vx + (spin / 5000) * 2.0\<close>, the \<open>friction\<close> field of the surface being unused;
  the spin replaced by \<open>0.7 * spin\<close>; and \<open>bounceCount\<close> incremented by 1. When these
  values have \<open>\<bar>vy\<bar> < 0.1\<close> or \<open>bounceCount > 10\<close>, the stop test then sets \<open>vx\<close> and
  \<open>vy\<close> to 0 and makes the ball inactive; otherwise they are the values the tick leaves.
  The bounds check follows and changes none of these fields.
\<close>

theorem ground_bounce_values:
  assumes "isActive b0" and "integrate dt b0 = Some s1"
    and "netCollision r (x b0) (y b0) s1 = Some s" and "y s \<le> 0"
  shows "update r dt b0 =
    Some (outOfBounds
      (let b' = s\<lparr>trajectory := trajectory s @ [(time s, y s)],
                    y := 0,
                    bounces := (if bounceCount s < 3 then bounces s @ [(time s, 0)] else bounces s),
                    vy := - coefficientOfRestitution (surface s) * vy s,
                    vx := 0.8 * vx s + (spinRPM s / 5000) * 2.0,
                    spinRPM := 0.7 * spinRPM s,
                    bounceCount := bounceCount s + 1\<rparr>
       in if \<bar>vy b'\<bar> < 0.1 \<or> bounceCount b' > 10
          then b'\<lparr>isActive := False, vy := 0, vx := 0\<rparr> else b'))"
proof -
  let ?t = "s\<lparr>trajectory := trajectory s @ [(time s, y s)]\<rparr>"
  have "y ?t \<le> 0" using assms(4) by simp
  from groundCollision_closed[OF this] obtain s3 where
    g: "groundCollision ?t = Some s3" and
    s3: "s3 = (let b' = ?t\<lparr>y := 0,
                    bounces := (if bounceCount ?t < 3 then bounces ?t @ [(time ?t, 0)] else bounces ?t),
                    vy := - coefficientOfRestitution (surface ?t) * vy ?t,
                    vx := 0.8 * vx ?t + (spinRPM ?t / 5000) * 2.0,
                    spinRPM := 0.7 * spinRPM ?t,
                    bounceCount := bounceCount ?t + 1\<rparr>
       in if \<bar>vy b'\<bar> < 0.1 \<or> bounceCount b' > 10
          then b'\<lparr>isActive := False, vy := 0, vx := 0\<rparr> else b')"
    by simp
  have "update r dt b0 = Some (outOfBounds s3)"
    using update_stages[OF assms(1) assms(2) assms(3) g] .
  then show ?thesis unfolding s3 by simp
qed

lemma sqrt_25: "sqrt 25 = 5"
  by (rule real_sqrt_unique) simp_all

theorem ground_bounce_values_witness:
  "isActive bounceBall \<and> integrate 0.01 bounceBall = Some bounceIntegrated \<and>
   netCollision 0 (x bounceBall) (y bounceBall) bounceIntegrated = Some bounceIntegrated \<and>
   y bounceIntegrated \<le> 0 \<and>
   update 0 0.01 bounceBall =
     Some (bounceIntegrated\<lparr>trajectory := [(0, 2), (0.61, -0.01007853981625)],
             y := 0, bounces := [(0.61, 0)], vy := 3.00589048621875, vx := 2.632,
             spinRPM := 406, bounceCount := 1\<rparr>)"
proof -
  have h: "isActive bounceBall" "integrate 0.01 bounceBall = Some bounceIntegrated"
    "netCollision 0 (x bounceBall) (y bounceBall) bounceIntegrated = Some bounceIntegrated"
    "y bounceIntegrated \<le> 0"
    by (simp_all add: bounceBall_def bounceIntegrated_def integrate_def netCollision_def
          fdiv_def consts_defs crossedNet_def sqrt_25 Let_def)
  show ?thesis
    using h ground_bounce_values [OF h]
    by (simp add: bounceIntegrated_def outOfBounds_def courts_def COURT_LENGTH_def Let_def)
qed

text \<open>
  C4 as stated fails, in two ways. The integration of a tick of 0.01 s leaves the active
  ball \<open>skimBall\<close> at \<open>y = -0.010981\<close>, but the ball has crossed the net plane and the
  net check lifts it to the crossing height 0.00895095: the ground check does not fire
  and \<open>bounceCount\<close> is not incremented. The integration leaves the active ball
  \<open>landingBall\<close> at \<open>y = -0.000081\<close> with \<open>vy = -0.1081\<close>; restitution gives
  \<open>- e * vy = 0.081075\<close>, below 0.1, and the tick ends with \<open>vy = 0\<close>.
\<close>

theorem ground_bounce_counterexample:
  "isActive skimBall \<and>
   map_option y (integrate 0.01 skimBall) = Some (- 0.010981) \<and>
   map_option y (update 50 0.01 skimBall) = Some 0.00895095 \<and>
   map_option bounceCount (update 50 0.01 skimBall) = Some (bounceCount skimBall) \<and>
   isActive landingBall \<and>
   map_option y (integrate 0.01 landingBall) = Some (- 0.000081) \<and>
   map_option vy (integrate 0.01 landingBall) = Some (- 0.1081) \<and>
   - coefficientOfRestitution (surface landingBall) * (- 0.1081) = 0.081075 \<and>
   map_option vy (update 0 0.01 landingBall) = Some 0"
  by (simp add: update_def skimBall_def landingBall_def integrate_def netCollision_def
        groundCollision_def outOfBounds_def fdiv_def consts_defs crossedNet_def sqrt_gt_tenth
        courts_def Let_def)

subsection \<open>C5: coming to rest, and the bound on the bounce counter\<close>

text \<open>
  C5. After a ground bounce (\<open>s\<close> is the state at the ground check of the tick, with
  \<open>y \<le> 0\<close>), if the velocity after restitution has \<open>\<bar>vy\<bar> < 0.1\<close> or the incremented
  \<open>bounceCount\<close> exceeds 10, the tick leaves the ball inactive with both velocity
  components 0. Consequently, in every state that the program can produce from a new
  ball, \<open>bounceCount\<close> is at most 11, and at most 10 while the ball is active.
\<close>

theorem stop_and_bounce_bound:
  "(isActive b0 \<and> integrate dt b0 = Some s1 \<and> netCollision r (x b0) (y b0) s1 = Some s \<and>
    y s \<le> 0 \<and>
    (\<bar>- coefficientOfRestitution (surface s) * vy s\<bar> < 0.1 \<or> bounceCount s + 1 > 10)
    \<longrightarrow> (\<exists>b'. update r dt b0 = Some b' \<and> \<not> isActive b' \<and> vx b' = 0 \<and> vy b' = 0)) \<and>
   (reachable b \<longrightarrow> bounceCount b \<le> 11 \<and> (isActive b \<longrightarrow> bounceCount b \<le> 10))"
proof (intro conjI impI)
  assume a: "isActive b0 \<and> integrate dt b0 = Some s1 \<and>
    netCollision r (x b0) (y b0) s1 = Some s \<and> y s \<le> 0 \<and>
    (\<bar>- coefficientOfRestitution (surface s) * vy s\<bar> < 0.1 \<or> bounceCount s + 1 > 10)"
  let ?t = "s\<lparr>trajectory := trajectory s @ [(time s, y s)]\<rparr>"
  have "y ?t \<le> 0" using a by simp
  from groundCollision_closed[OF this] a obtain s3 where
    g: "groundCollision ?t = Some s3" and
    s3: "\<not> isActive s3 \<and> vx s3 = 0 \<and> vy s3 = 0"
    by (auto simp: Let_def)
  have "update r dt b0 = Some (outOfBounds s3)"
    using update_stages[of b0 dt s1 r s s3] a g by blast
  then show "\<exists>b'. update r dt b0 = Some b' \<and> \<not> isActive b' \<and> vx b' = 0 \<and> vy b' = 0"
    using s3 outOfBounds_fields[of s3] by auto
next
  assume "reachable b"
  then have "count_inv b" by (rule reachable_count_inv)
  then show "bounceCount b \<le> 11" by (simp add: count_inv_def)
next
  assume "reachable b" and "isActive b"
  then show "bounceCount b \<le> 10"
    using reachable_count_inv[of b] by (simp add: count_inv_def)
qed

theorem stop_and_bounce_bound_witness:
  "isActive landingBall \<and> integrate 0.01 landingBall = Some landed \<and>
   netCollision 0 (x landingBall) (y landingBall) landed = Some landed \<and> y landed \<le> 0 \<and>
   \<bar>- coefficientOfRestitution (surface landed) * vy landed\<bar> < 0.1 \<and>
   (\<exists>b'. update 0 0.01 landingBall = Some b' \<and> \<not> isActive b' \<and> vx b' = 0 \<and> vy b' = 0) \<and>
   reachable (TennisBall_new (courts ! 0)) \<and>
   bounceCount (TennisBall_new (courts ! 0)) \<le> 11"
proof -
  have h: "isActive landingBall" "integrate 0.01 landingBall = Some landed"
    "netCollision 0 (x landingBall) (y landingBall) landed = Some landed" "y landed \<le> 0"
    "\<bar>- coefficientOfRestitution (surface landed) * vy landed\<bar> < 0.1"
    by (simp_all add: landingBall_def landed_def integrate_def netCollision_def
          fdiv_def consts_defs crossedNet_def sqrt_gt_tenth courts_def Let_def)
  have re: "reachable (TennisBall_new (courts ! 0))" by (rule r_new)
  show ?thesis
    using h re
      stop_and_bounce_bound [of landingBall "0.01" landed 0 landed "TennisBall_new (courts ! 0)"]
    by blast
qed

subsection \<open>C6: a ball that clears the net\<close>

text \<open>
  C6. For every tick in which the integrated position has crossed the net plane and
  the interpolated crossing height is strictly greater than
  \<open>NET_HEIGHT + BALL_RADIUS\<close>, the net check returns the integrated state as it is:
  position, velocity, spin and every other field are unchanged.
\<close>

theorem net_cleared_unchanged:
  assumes "crossedNet (COURT_LENGTH / 2) prevX (x b)"
    and "prevY + (COURT_LENGTH / 2 - prevX) / (x b - prevX) * (y b - prevY)
           > NET_HEIGHT + BALL_RADIUS"
  shows "netCollision r prevX prevY b = Some b"
proof -
  have "x b - prevX \<noteq> 0" using assms(1) by (rule crossedNet_divisor)
  then show ?thesis using assms
    by (simp add: netCollision_def fdiv_def COURT_LENGTH_def)
qed

theorem net_cleared_unchanged_witness:
  "crossedNet (COURT_LENGTH / 2) 11.8 (x netCleared) \<and>
   1.5 + (COURT_LENGTH / 2 - 11.8) / (x netCleared - 11.8) * (y netCleared - 1.5)
     > NET_HEIGHT + BALL_RADIUS \<and>
   netCollision 75 11.8 1.5 netCleared = Some netCleared"
proof -
  have h: "crossedNet (COURT_LENGTH / 2) 11.8 (x netCleared)"
    "1.5 + (COURT_LENGTH / 2 - 11.8) / (x netCleared - 11.8) * (y netCleared - 1.5)
       > NET_HEIGHT + BALL_RADIUS"
    by (simp_all add: netCleared_def crossedNet_def consts_defs)
  show ?thesis using h net_cleared_unchanged [OF h, of 75] by blast
qed

subsection \<open>C7: a cancelled return\<close>

lemma CheckRightyCollision_active: "CheckRightyCollision a u \<Longrightarrow> isActive u"
  by (simp add: CheckRightyCollision_def split: if_splits)

text \<open>The cancelled return in \<open>courtUpdate\<close>, in closed form.\<close>

lemma courtUpdate_cancel:
  assumes nw: "\<not> waitingToRelaunch a" and ne: "\<not> (isActive b \<and> COURT_LENGTH \<le> x b)"
    and u: "update (rnd 0) adjustedDT b = Some u"
    and hit: "CheckRightyCollision a u"
    and d: "dlg \<lparr>force = rightyHitForce a, angle = rightyHitAngle a,
                 spin = rightyHitSpin a, confirmed = False\<rparr> = (ok, params)"
    and c: "\<not> (ok \<and> confirmed params)"
  shows "courtUpdate adjustedDT rnd dlg (a, b) =
    Some (a\<lparr>simulationPaused := False, ballHitRighty := False\<rparr>,
          u\<lparr>vx := - 0.5 * vx u, x := rightyPosition a - 0.1\<rparr>)"
proof -
  have act: "isActive u" using hit by (rule CheckRightyCollision_active)
  have hit': "CheckRightyCollision a u = True" using hit by simp
  have cond: "(isActive b \<and> COURT_LENGTH \<le> x b) = False" using ne by simp
  have c': "(ok \<and> confirmed params) = False" using c by simp
  show ?thesis
    unfolding courtUpdate_def
    by (simp only: fst_conv snd_conv Let_def cond if_False nw u hit' if_True d c'
          case_prod_conv bind.bind_lunit)
      (simp add: act d c')
qed

text \<open>
  C7. When a player collision is detected and the dialog is cancelled (it returns false,
  or leaves \<open>confirmed\<close> false), the horizontal velocity of the ball becomes exactly
  \<open>-0.5\<close> times its value after the update of the tick, its \<open>x\<close> becomes exactly the
  position of RIGHTY minus 0.1, and the pause flag is cleared; \<open>vy\<close>, the spin,
  \<open>bounceCount\<close> and the trajectory and bounce histories are those the update left.
  \<open>a1\<close> is the application after the movement of RIGHTY in this tick, \<open>u\<close> the ball
  after its update.
\<close>

theorem righty_cancel:
  assumes "simulationStarted a" and "\<not> simulationComplete a" and "\<not> simulationPaused a"
    and "currentScreen a \<noteq> MODE_ALL"
    and "a1 = moveRighty RIGHTY_SPEED keyLeft keyRight a"
    and "b = courtBall (currentScreen a) a"
    and "\<not> waitingToRelaunch a" and "\<not> (isActive b \<and> COURT_LENGTH \<le> x b)"
    and "update (rnd 0) (DT * visualPaceMultiplier a) b = Some u"
    and "CheckRightyCollision a1 u"
    and "dlg \<lparr>force = rightyHitForce a, angle = rightyHitAngle a,
               spin = rightyHitSpin a, confirmed = False\<rparr> = (ok, params)"
    and "\<not> (ok \<and> confirmed params)"
  shows "\<exists>a' b'. Update RIGHTY_SPEED keyLeft keyRight rnd dlg a = Some a' \<and>
     b' = courtBall (currentScreen a) a' \<and>
     b' = u\<lparr>vx := - 0.5 * vx u, x := rightyPosition a1 - 0.1\<rparr> \<and>
     vx b' = - 0.5 * vx u \<and> x b' = rightyPosition a1 - 0.1 \<and>
     vy b' = vy u \<and> spinRPM b' = spinRPM u \<and> bounceCount b' = bounceCount u \<and>
     trajectory b' = trajectory u \<and> bounces b' = bounces u \<and>
     \<not> simulationPaused a' \<and> \<not> ballHitRighty a'"
proof -
  have a1: "a1 = a\<lparr>rightyPosition := rightyPosition a1\<rparr>"
    unfolding assms(5) by (rule moveRighty_eq)
  have scr: "currentScreen a1 = currentScreen a" and w: "waitingToRelaunch a1 = waitingToRelaunch a"
    and f: "rightyHitForce a1 = rightyHitForce a" and g: "rightyHitAngle a1 = rightyHitAngle a"
    and s: "rightyHitSpin a1 = rightyHitSpin a"
    and cb: "courtBall (currentScreen a) a1 = b"
    by (subst a1, simp add: assms(6) courtBall_rightyPosition)+
  have nw: "\<not> waitingToRelaunch a1" using assms(7) w by simp
  have d: "dlg \<lparr>force = rightyHitForce a1, angle = rightyHitAngle a1,
               spin = rightyHitSpin a1, confirmed = False\<rparr> = (ok, params)"
    using assms(11) f g s by simp
  have cu: "courtUpdate (DT * visualPaceMultiplier a) rnd dlg (a1, b) =
    Some (a1\<lparr>simulationPaused := False, ballHitRighty := False\<rparr>,
          u\<lparr>vx := - 0.5 * vx u, x := rightyPosition a1 - 0.1\<rparr>)"
    using courtUpdate_cancel[where rnd = rnd and dlg = dlg,
        OF nw assms(8) assms(9) assms(10) d assms(12)] .
  show ?thesis
    using assms(1-4) cu scr cb
    by (simp add: Update_def Let_def assms(5)[symmetric] setCourtBall_fields
          setCourtBall_courtBall)
qed

theorem righty_cancel_witness:
  "simulationStarted playApp \<and> \<not> simulationComplete playApp \<and> \<not> simulationPaused playApp \<and>
   currentScreen playApp \<noteq> MODE_ALL \<and> \<not> waitingToRelaunch playApp \<and>
   \<not> (isActive approachingBall \<and> COURT_LENGTH \<le> x approachingBall) \<and>
   map_option vx (update 0 (DT * visualPaceMultiplier playApp) approachingBall) = Some 10 \<and>
   (\<exists>a' b'. Update 4 False False (rndConst 0) dlgCancel playApp = Some a' \<and>
      b' = clayBall a' \<and> vx b' = - 5 \<and> x b' = 22.67 \<and> \<not> simulationPaused a')"
proof -
  define u where "u = approachingBall\<lparr>time := 1.0166, vy := - 0.162846, y := 0.9972967564,
    x := 22.766, trajectory := [(0, 1), (1.0166, 0.9972967564)]\<rparr>"
  have m: "playApp = moveRighty 4 False False playApp"
    by (simp add: moveRighty_def)
  have h: "simulationStarted playApp" "\<not> simulationComplete playApp" "\<not> simulationPaused playApp"
    "currentScreen playApp \<noteq> MODE_ALL"
    "approachingBall = courtBall (currentScreen playApp) playApp"
    "\<not> waitingToRelaunch playApp"
    "\<not> (isActive approachingBall \<and> COURT_LENGTH \<le> x approachingBall)"
    by (simp_all add: playApp_def approachingBall_def COURT_LENGTH_def)
  have up: "update (rndConst 0 0) (DT * visualPaceMultiplier playApp) approachingBall = Some u"
    by (simp add: u_def playApp_def approachingBall_def update_def integrate_def
          netCollision_def groundCollision_def outOfBounds_def fdiv_def consts_defs
          crossedNet_def sqrt_gt_tenth rndConst_def Let_def)
  have hit: "CheckRightyCollision playApp u"
    by (simp add: u_def playApp_def approachingBall_def CheckRightyCollision_def consts_defs)
  have d: "dlgCancel \<lparr>force = rightyHitForce playApp, angle = rightyHitAngle playApp,
               spin = rightyHitSpin playApp, confirmed = False\<rparr> =
       (False, \<lparr>force = rightyHitForce playApp, angle = rightyHitAngle playApp,
               spin = rightyHitSpin playApp, confirmed = False\<rparr>)"
    by (simp add: dlgCancel_def)
  have c: "\<not> (False \<and> confirmed \<lparr>force = rightyHitForce playApp, angle = rightyHitAngle playApp,
               spin = rightyHitSpin playApp, confirmed = False\<rparr>)"
    by simp
  from righty_cancel [where rnd = "rndConst 0" and dlg = dlgCancel,
      OF h(1-4) m h(5) h(6) h(7) up hit d c]
  obtain a' b' where r: "Update 4 False False (rndConst 0) dlgCancel playApp = Some a'"
    "b' = courtBall (currentScreen playApp) a'"
    "vx b' = - 0.5 * vx u" "x b' = rightyPosition playApp - 0.1" "\<not> simulationPaused a'"
    by blast
  have "b' = clayBall a'" "vx b' = - 5" "x b' = 22.67"
    using r(2-4) by (simp_all add: u_def playApp_def approachingBall_def)
  moreover have "map_option vx (update 0 (DT * visualPaceMultiplier playApp) approachingBall) = Some 10"
    using up by (simp add: rndConst_def u_def approachingBall_def)
  ultimately show ?thesis using h r(1) r(5) by blast
qed

subsection \<open>C8: the update divides by nothing that is zero\<close>

text \<open>
  C8. Every division of the update has a nonzero divisor, so the update of every ball
  returns a state: the Magnus and drag accelerations divide by the constant
  \<open>BALL_MASS\<close>, which is not zero; the Magnus term is applied only when the speed
  exceeds 0.1 (at a speed of at most 0.1 the integration changes \<open>vy\<close> by gravity
  alone); and the divisor of the interpolation, \<open>xPost - prevX\<close>, is not zero whenever
  the crossing test holds.
\<close>

theorem update_total:
  "(\<exists>b'. update r dt b = Some b') \<and> BALL_MASS \<noteq> 0 \<and>
   (sqrt (vx b * vx b + (vy b - GRAVITY * dt) * (vy b - GRAVITY * dt)) \<le> 0.1 \<longrightarrow>
      map_option vy (integrate dt b) = Some (vy b - GRAVITY * dt)) \<and>
   (crossedNet (COURT_LENGTH / 2) prevX xPost \<longrightarrow> xPost - prevX \<noteq> 0)"
proof -
  have "\<exists>b'. update r dt b = Some b'"
  proof (cases "isActive b")
    case False
    then show ?thesis by (simp add: update_def)
  next
    case True
    obtain s1 where s1: "integrate dt b = Some s1"
      using integrate_total by blast
    obtain s2 where s2: "netCollision r (x b) (y b) s1 = Some s2"
      using netCollision_total by blast
    obtain s3 where
      s3: "groundCollision (s2\<lparr>trajectory := trajectory s2 @ [(time s2, y s2)]\<rparr>) = Some s3"
      using groundCollision_total by blast
    show ?thesis using update_stages[OF True s1 s2 s3] by blast
  qed
  moreover have "sqrt (vx b * vx b + (vy b - GRAVITY * dt) * (vy b - GRAVITY * dt)) \<le> 0.1 \<longrightarrow>
      map_option vy (integrate dt b) = Some (vy b - GRAVITY * dt)"
    by (simp add: integrate_def fdiv_def BALL_MASS_def Let_def)
  ultimately show ?thesis
    by (auto simp: BALL_MASS_def crossedNet_def)
qed

theorem update_total_witness:
  "(\<exists>b'. update 50 0.01 slowBall = Some b') \<and> BALL_MASS \<noteq> 0 \<and>
   sqrt (vx slowBall * vx slowBall
         + (vy slowBall - GRAVITY * 0.01) * (vy slowBall - GRAVITY * 0.01)) \<le> 0.1 \<and>
   map_option vy (integrate 0.01 slowBall) = Some (- 0.0481) \<and>
   crossedNet (COURT_LENGTH / 2) 11.8 11.9 \<and> (11.9::real) - 11.8 \<noteq> 0"
proof -
  have c: "crossedNet (COURT_LENGTH / 2) 11.8 11.9"
    by (simp add: crossedNet_def COURT_LENGTH_def)
  have s: "sqrt (vx slowBall * vx slowBall
         + (vy slowBall - GRAVITY * 0.01) * (vy slowBall - GRAVITY * 0.01)) \<le> 0.1"
    unfolding sqrt_le_tenth by (simp add: slowBall_def GRAVITY_def)
  have v: "vy slowBall - GRAVITY * 0.01 = - 0.0481"
    by (simp add: slowBall_def GRAVITY_def)
  show ?thesis
    using c s update_total [of 50 "0.01" slowBall "11.8" "11.9"] unfolding v by blast
qed

subsection \<open>C9: reset is idempotent\<close>

text \<open>
  C9. For every ball state, reset twice is reset once, and the state after reset has
  height 2.0, \<open>x = 0\<close>, zero velocities, elapsed time 0, \<open>bounceCount\<close> 0, is active,
  has the single trajectory sample (0, 2.0) and no bounce history; the surface, the
  drag coefficient and the spin are kept. The same holds in the drop-only listing.
\<close>

theorem reset_idempotent:
  "reset (reset b) = reset b \<and>
   reset b = b\<lparr>y := 2.0, vy := 0, x := 0, vx := 0, time := 0, bounceCount := 0,
               isActive := True, trajectory := [(0, 2.0)], bounces := []\<rparr> \<and>
   drop_reset (drop_reset d) = drop_reset d \<and>
   drop_reset d = d\<lparr>y := 2.0, vy := 0, time := 0, bounceCount := 0,
                    isActive := True, trajectory := [(0, 2.0)], bounces := []\<rparr>"
  by (simp add: reset_def drop_reset_def INITIAL_HEIGHT_def)

subsection \<open>C10: an inactive ball is not updated\<close>

text \<open>
  C10. For every ball that is not active and every \<open>dt\<close>, \<open>update(dt)\<close> returns the ball
  with every field unchanged, in the full listing and in the drop-only listing.
\<close>

theorem update_inactive_noop:
  "(\<not> isActive b \<longrightarrow> update r dt b = Some b) \<and>
   (\<not> isActive d \<longrightarrow> drop_update dt d = d)"
  by (simp add: update_def drop_update_def)

theorem update_inactive_noop_witness:
  "\<not> isActive restingBall \<and> update 7 0.0166 restingBall = Some restingBall \<and>
   \<not> isActive restingDrop \<and> drop_update 0.0166 restingDrop = restingDrop"
proof -
  have "\<not> isActive restingBall" "\<not> isActive restingDrop"
    by (simp_all add: restingBall_def restingDrop_def)
  then show ?thesis
    using update_inactive_noop [of restingBall 7 "0.0166" restingDrop] by blast
qed

end
